theory Spec2Isabelle
  imports Main
begin

section \<open>Bulk GitHub repository deleter: a model of \<^verbatim>\<open>go_and_delete.go\<close>\<close>

text \<open>
  The program is one Go file: five HTTP handlers around a process-wide
  \<^verbatim>\<open>githubClient *github.Client\<close>. Each handler is modelled as a function from the
  session (the global), the request's parameters and the provider's behaviour to the
  session afterwards, the way the handler ended, and the calls it made, in order, to the
  client library (\<^verbatim>\<open>Repositories.List\<close>, \<^verbatim>\<open>Repositories.Delete\<close>) and to the token endpoint,
  each with its arguments. The client library with the hosting provider behind it, and the
  OAuth token endpoint, are external: they are parameters.
\<close>

subsection \<open>Session, configuration and the ways a handler ends\<close>

text \<open>
  \<^verbatim>\<open>github.NewClient(oauth2.NewClient(ctx, StaticTokenSource(&Token{AccessToken: token})))\<close>:
  a client handle is determined by its bearer token. \<^verbatim>\<open>nil\<close> is \<open>None\<close>.
\<close>

datatype Client = Client (AccessToken: string)

type_synonym Session = "Client option"

text \<open>Line 122, \<^verbatim>\<open>IsLoggedIn: githubClient != nil\<close>; the test of line 84 is its negation.\<close>

definition isAuthenticated :: "Session \<Rightarrow> bool" where
  "isAuthenticated githubClient = (githubClient \<noteq> None)"

record Config =
  clientID :: string
  clientSecret :: string
  redirectURI :: string

text \<open>
  A Go \<^verbatim>\<open>error\<close> value returned by the client library: its dynamic type, the status code
  of the response it carries, and the text of \<^verbatim>\<open>err.Error()\<close>. The library returns a
  \<^verbatim>\<open>*github.ErrorResponse\<close> for a response that is not a success, except that a response
  with status 403 caused by rate limiting comes as a \<^verbatim>\<open>*github.RateLimitError\<close> or a
  \<^verbatim>\<open>*github.AbuseRateLimitError\<close>: other dynamic types, which carry the response as well.
  \<open>PlainError\<close> is an error with no response (a failed connection, for instance).
\<close>

datatype error =
    ErrorResponse int string
  | RateLimitError int string
  | AbuseRateLimitError int string
  | PlainError string

fun Error :: "error \<Rightarrow> string" where
  "Error (ErrorResponse status text) = text"
| "Error (RateLimitError status text) = text"
| "Error (AbuseRateLimitError status text) = text"
| "Error (PlainError text) = text"

text \<open>The HTTP status of the response that an error came with, if it came with one.\<close>

fun StatusCode :: "error \<Rightarrow> int option" where
  "StatusCode (ErrorResponse status text) = Some status"
| "StatusCode (RateLimitError status text) = Some status"
| "StatusCode (AbuseRateLimitError status text) = Some status"
| "StatusCode (PlainError text) = None"

datatype runtime_panic = IndexOutOfRange | NilPointerDereference

text \<open>
  One value per \<^verbatim>\<open>Fprintf\<close> of the delete loop (lines 163, 166, 169), carrying the
  arguments of the format; \<open>render\<close> is the text written.
\<close>

datatype DeleteResult =
    Deleted string
  | Forbidden string
  | OtherError string string

fun render :: "DeleteResult \<Rightarrow> string" where
  "render (Forbidden repo) =
     ''Failed to delete '' @ repo @ '': You must have admin rights to delete this repository.<br>''"
| "render (OtherError repo err) = ''Failed to delete '' @ repo @ '': '' @ err @ ''<br>''"
| "render (Deleted repo) = ''Deleted: '' @ repo @ ''<br>''"

fun subject :: "DeleteResult \<Rightarrow> string" where
  "subject (Deleted repo) = repo"
| "subject (Forbidden repo) = repo"
| "subject (OtherError repo err) = repo"

record ListOptions =
  PerPage :: int
  Page :: int

text \<open>The struct literal of lines 109 to 123, the data the template is executed with.\<close>

record IndexData =
  Repos :: "string list"
  HasPrev :: bool
  HasNext :: bool
  PrevPage :: int
  NextPage :: int
  IsLoggedIn :: bool

datatype request =
    ListRepos ListOptions
  | DeleteRepo string string
  | TokenPost string

text \<open>
  How a handler ends. A panic inside a handler is recovered by \<^verbatim>\<open>net/http\<close>: the request
  is aborted and the process goes on. \<^verbatim>\<open>log.Fatalf\<close> ends the process with status 1.
  \<open>DeleteReport\<close> is the delete loop run to its end: its lines, after which line 172
  writes the link back. \<open>Panicked\<close> carries the lines the delete loop had written when it
  panicked.
\<close>

datatype response =
    Redirect string int
  | HttpError string int
  | Index IndexData
  | DeleteReport "DeleteResult list"
  | Panicked runtime_panic "DeleteResult list"
  | Exited int

record served =
  session :: Session
  response :: response
  requests :: "request list"

subsection \<open>Bulk deleter (lines 151 to 173)\<close>

text \<open>
  \<^verbatim>\<open>strings.Split(s, "/")\<close>: every occurrence of the separator splits, so a string with
  \<open>n\<close> separators gives \<open>n + 1\<close> parts; the second case of \<open>case\<close> is never reached,
  because the result is never empty.
\<close>

fun Split :: "string \<Rightarrow> char \<Rightarrow> string list" where
  "Split [] sep = [[]]"
| "Split (c # s) sep =
     (if c = sep then [] # Split s sep
      else (case Split s sep of [] \<Rightarrow> [[c]] | p # ps \<Rightarrow> (c # p) # ps))"

text \<open>
  What lies before the first \<open>/\<close> of a string, and what lies after it (nothing, when
  there is none).
\<close>

abbreviation beforeSlash :: "string \<Rightarrow> string" where
  "beforeSlash s \<equiv> takeWhile (\<lambda>c. c \<noteq> CHR ''/'') s"

abbreviation afterSlash :: "string \<Rightarrow> string" where
  "afterSlash s \<equiv> tl (dropWhile (\<lambda>c. c \<noteq> CHR ''/'') s)"

text \<open>
  Lines 160 to 170: which line is written for the error returned by the delete call. The
  type assertion of line 161 holds for a \<^verbatim>\<open>*github.ErrorResponse\<close> only.
\<close>

definition outcome :: "string \<Rightarrow> error option \<Rightarrow> DeleteResult" where
  "outcome repo err =
     (case err of
        Some e \<Rightarrow>
          (if (case e of
                 ErrorResponse status text \<Rightarrow> status = 403
               | RateLimitError status text \<Rightarrow> False
               | AbuseRateLimitError status text \<Rightarrow> False
               | PlainError text \<Rightarrow> False)
           then Forbidden repo
           else OtherError repo (Error e))
      | None \<Rightarrow> Deleted repo)"

text \<open>
  \<^verbatim>\<open>githubClient.Repositories.Delete(ctx, owner, repoName)\<close>: the provider answers with an
  error or none, and changes; \<open>'p\<close> is the provider's state.
\<close>

type_synonym 'p DeleteAPI = "'p \<Rightarrow> Client \<Rightarrow> string \<Rightarrow> string \<Rightarrow> error option \<times> 'p"

text \<open>
  The \<^verbatim>\<open>for\<close> loop over \<^verbatim>\<open>r.Form["repos"]\<close>. \<^verbatim>\<open>parts[1]\<close> panics when the split gave one
  part; \<^verbatim>\<open>githubClient.Repositories\<close> panics when the global is \<^verbatim>\<open>nil\<close>. \<open>w\<close> is what
  has been written, \<open>sent\<close> the delete requests issued.
\<close>

fun deleteLoop ::
  "'p DeleteAPI \<Rightarrow> Session \<Rightarrow> string list \<Rightarrow> 'p \<Rightarrow> DeleteResult list \<Rightarrow> request list
     \<Rightarrow> served \<times> 'p" where
  "deleteLoop api githubClient [] p w sent =
     (\<lparr>session = githubClient, response = DeleteReport w, requests = sent\<rparr>, p)"
| "deleteLoop api githubClient (repo # repos) p w sent =
     (let parts = Split repo CHR ''/'' in
      if length parts < 2
      then (\<lparr>session = githubClient, response = Panicked IndexOutOfRange w, requests = sent\<rparr>, p)
      else
        let owner = parts ! 0; repoName = parts ! 1 in
        (case githubClient of
           None \<Rightarrow>
             (\<lparr>session = githubClient, response = Panicked NilPointerDereference w,
               requests = sent\<rparr>, p)
         | Some client \<Rightarrow>
             (case api p client owner repoName of
                (err, p') \<Rightarrow>
                  deleteLoop api githubClient repos p' (w @ [outcome repo err])
                    (sent @ [DeleteRepo owner repoName]))))"

definition deleteHandler ::
  "'p DeleteAPI \<Rightarrow> Session \<Rightarrow> string list \<Rightarrow> 'p \<Rightarrow> served \<times> 'p" where
  "deleteHandler api githubClient repos p = deleteLoop api githubClient repos p [] []"

subsection \<open>Repository lister (lines 83 to 127)\<close>

text \<open>
  \<^verbatim>\<open>fmt.Sscanf(p, "%d", &page)\<close> reads runes, so the value of the \<^verbatim>\<open>page\<close> parameter is a
  list of code points; \<open>runes\<close> gives the code points of an ASCII literal.
\<close>

type_synonym rune = nat

definition runes :: "string \<Rightarrow> rune list" where
  "runes s = map of_char s"

text \<open>The table \<^verbatim>\<open>space\<close> of package \<^verbatim>\<open>fmt\<close>, which its \<^verbatim>\<open>isSpace\<close> searches.\<close>

definition isSpace :: "rune \<Rightarrow> bool" where
  "isSpace r =
     ((0x0009 \<le> r \<and> r \<le> 0x000d) \<or> r = 0x0020 \<or> r = 0x0085 \<or> r = 0x00a0 \<or> r = 0x1680
      \<or> (0x2000 \<le> r \<and> r \<le> 0x200a) \<or> (0x2028 \<le> r \<and> r \<le> 0x2029) \<or> r = 0x202f
      \<or> r = 0x205f \<or> r = 0x3000)"

text \<open>
  \<^verbatim>\<open>(*ss).SkipSpace\<close> with \<^verbatim>\<open>nlIsSpace\<close> false, as \<^verbatim>\<open>Sscanf\<close> sets it: a carriage return
  before a newline is dropped, a newline is the error "unexpected newline" (\<open>None\<close>),
  other space is skipped.
\<close>

fun SkipSpace :: "rune list \<Rightarrow> rune list option" where
  "SkipSpace [] = Some []"
| "SkipSpace (r # rs) =
     (if r = 0x0d \<and> (case rs of [] \<Rightarrow> False | n # ns \<Rightarrow> n = 0x0a) then SkipSpace rs
      else if r = 0x0a then None
      else if isSpace r then SkipSpace rs
      else Some (r # rs))"

definition isDigit :: "rune \<Rightarrow> bool" where
  "isDigit r = (0x30 \<le> r \<and> r \<le> 0x39)"

definition decimal :: "rune list \<Rightarrow> int" where
  "decimal tok = foldl (\<lambda>a d. 10 * a + int (d - 0x30)) 0 tok"

text \<open>
  \<^verbatim>\<open>(*ss).scanInt\<close> for the verb \<^verbatim>\<open>%d\<close> and a 64-bit \<^verbatim>\<open>int\<close>: space is skipped, an optional
  sign is accepted, at least one decimal digit is required ("expected integer"), the
  digits that follow are taken, and a value outside 64 bits is a range error. Input after
  the number is not looked at. \<open>None\<close> is any of the errors.
\<close>

definition scanInt :: "rune list \<Rightarrow> int option" where
  "scanInt input =
     (case SkipSpace input of
        None \<Rightarrow> None
      | Some s \<Rightarrow>
          (let negative = (case s of [] \<Rightarrow> False | r # rs \<Rightarrow> r = 0x2d);
               digits = (case s of [] \<Rightarrow> [] | r # rs \<Rightarrow> if r = 0x2b \<or> r = 0x2d then rs else s)
           in case digits of
                [] \<Rightarrow> None
              | d # ds \<Rightarrow>
                  if isDigit d
                  then (let tok = takeWhile isDigit digits;
                            i = (if negative then - decimal tok else decimal tok)
                        in if - (2 ^ 63) \<le> i \<and> i < 2 ^ 63 then Some i else None)
                  else None))"

text \<open>The call of line 91: \<^verbatim>\<open>page\<close> is assigned only when the scan succeeds.\<close>

definition Sscanf :: "rune list \<Rightarrow> int \<Rightarrow> int" where
  "Sscanf p page = (case scanInt p of Some i \<Rightarrow> i | None \<Rightarrow> page)"

text \<open>\<^verbatim>\<open>url.Values.Get\<close>: the empty string when the parameter is absent.\<close>

definition Get :: "'a list option \<Rightarrow> 'a list" where
  "Get param = (case param of None \<Rightarrow> [] | Some v \<Rightarrow> v)"

text \<open>
  What \<^verbatim>\<open>Repositories.List\<close> returns: a repository's \<^verbatim>\<open>FullName\<close> is a \<^verbatim>\<open>*string\<close>, and
  the \<^verbatim>\<open>*github.Response\<close> has the fields \<^verbatim>\<open>PrevPage\<close> and \<^verbatim>\<open>NextPage\<close>, of type
  \<^verbatim>\<open>int\<close> (named \<open>respPrevPage\<close> and \<open>respNextPage\<close> here, apart from the fields of
  \<open>IndexData\<close>).
\<close>

datatype Repository = Repository (FullName: "string option")

record Response =
  respPrevPage :: int
  respNextPage :: int

type_synonym ListAPI = "Client \<Rightarrow> ListOptions \<Rightarrow> error + Repository list \<times> Response"

text \<open>Lines 104 to 107; \<^verbatim>\<open>*repo.FullName\<close> panics on \<^verbatim>\<open>nil\<close> (\<open>None\<close>).\<close>

fun repoNames :: "Repository list \<Rightarrow> string list \<Rightarrow> string list option" where
  "repoNames [] names = Some names"
| "repoNames (repo # repos) names =
     (case FullName repo of
        None \<Rightarrow> None
      | Some name \<Rightarrow> repoNames repos (names @ [name]))"

text \<open>Lines 89 to 92: the page asked for, from the \<^verbatim>\<open>page\<close> parameter of the query.\<close>

definition pageNumber :: "rune list option \<Rightarrow> int" where
  "pageNumber pageParam =
     (let page = 1; p = Get pageParam in if p \<noteq> [] then Sscanf p page else page)"

definition homeHandler :: "ListAPI \<Rightarrow> Session \<Rightarrow> rune list option \<Rightarrow> served" where
  "homeHandler api githubClient pageParam =
     (case githubClient of
        None \<Rightarrow> \<lparr>session = githubClient, response = Redirect ''/login'' 302, requests = []\<rparr>
      | Some client \<Rightarrow>
          (let options = \<lparr>PerPage = 10, Page = pageNumber pageParam\<rparr>
           in case api client options of
                Inl err \<Rightarrow>
                  \<lparr>session = githubClient, response = HttpError (Error err) 500,
                    requests = [ListRepos options]\<rparr>
              | Inr (repos, resp) \<Rightarrow>
                  (case repoNames repos [] of
                     None \<Rightarrow>
                       \<lparr>session = githubClient, response = Panicked NilPointerDereference [],
                         requests = [ListRepos options]\<rparr>
                   | Some names \<Rightarrow>
                       \<lparr>session = githubClient,
                         response = Index
                           \<lparr>Repos = names,
                             HasPrev = respPrevPage resp > 0,
                             HasNext = respNextPage resp > 0,
                             PrevPage = respPrevPage resp,
                             NextPage = respNextPage resp,
                             IsLoggedIn = isAuthenticated githubClient\<rparr>,
                         requests = [ListRepos options]\<rparr>)))"

subsection \<open>Login, callback, logout and start-up\<close>

text \<open>Line 130: the redirect target is built from the configuration, nothing is checked.\<close>

definition loginHandler :: "Config \<Rightarrow> Session \<Rightarrow> served" where
  "loginHandler cfg githubClient =
     \<lparr>session = githubClient,
       response = Redirect
         (''https://github.com/login/oauth/authorize?client_id='' @ clientID cfg
            @ ''&scope=repo,delete_repo&redirect_uri='' @ redirectURI cfg) 302,
       requests = []\<rparr>"

text \<open>
  The token endpoint: \<^verbatim>\<open>client.Do\<close> fails, or there is a response whose body
  \<^verbatim>\<open>json.Decode\<close> turns into \<^verbatim>\<open>result\<close>, a map from keys to decoded values (the empty
  map when the body is not a JSON object; the decoding error is dropped at line 190).
\<close>

datatype any = JString string | JNumber | JBool bool | JNull | JArray | JObject

datatype token_reply = Unreachable error | Replied "string \<rightharpoonup> any"

type_synonym TokenEndpoint = "string \<Rightarrow> token_reply"

text \<open>
  Lines 175 to 198. Both failures call \<^verbatim>\<open>log.Fatalf\<close>, which ends the process with
  status 1: \<open>Inl 1\<close>. \<open>Inr\<close> is the token returned.
\<close>

definition exchangeCodeForToken ::
  "Config \<Rightarrow> TokenEndpoint \<Rightarrow> string \<Rightarrow> (int + string) \<times> request list" where
  "exchangeCodeForToken cfg post code =
     (let form = ''client_id='' @ clientID cfg @ ''&client_secret='' @ clientSecret cfg
                   @ ''&code='' @ code
      in case post form of
           Unreachable err \<Rightarrow> (Inl 1, [TokenPost form])
         | Replied result \<Rightarrow>
             (case result ''access_token'' of
                Some (JString token) \<Rightarrow> (Inr token, [TokenPost form])
              | _ \<Rightarrow> (Inl 1, [TokenPost form])))"

definition callbackHandler ::
  "Config \<Rightarrow> TokenEndpoint \<Rightarrow> Session \<Rightarrow> string option \<Rightarrow> served" where
  "callbackHandler cfg post githubClient codeParam =
     (let code = Get codeParam in
      if code = []
      then \<lparr>session = githubClient, response = HttpError ''Code not found'' 400, requests = []\<rparr>
      else
        (case exchangeCodeForToken cfg post code of
           (Inl status, sent) \<Rightarrow>
             \<lparr>session = githubClient, response = Exited status, requests = sent\<rparr>
         | (Inr token, sent) \<Rightarrow>
             \<lparr>session = Some (Client token), response = Redirect ''/'' 302, requests = sent\<rparr>))"

definition logoutHandler :: "Session \<Rightarrow> served" where
  "logoutHandler githubClient =
     \<lparr>session = None, response = Redirect ''/'' 302, requests = []\<rparr>"

text \<open>
  Lines 19 to 21 and 72 to 81. \<^verbatim>\<open>os.Getenv\<close> gives the empty string for a variable that
  is not set. \<^verbatim>\<open>main\<close> registers the five handlers and calls \<^verbatim>\<open>http.ListenAndServe\<close>,
  which serves until it fails; its error goes to \<^verbatim>\<open>log.Fatal\<close>.
\<close>

definition Getenv :: "(string \<rightharpoonup> string) \<Rightarrow> string \<Rightarrow> string" where
  "Getenv env key = (case env key of None \<Rightarrow> [] | Some v \<Rightarrow> v)"

definition config :: "(string \<rightharpoonup> string) \<Rightarrow> Config" where
  "config env =
     \<lparr>clientID = Getenv env ''OAUTH_CLIENT_ID'',
       clientSecret = Getenv env ''OAUTH_CLIENT_SECRET'',
       redirectURI = ''http://localhost:8989/callback''\<rparr>"

datatype process = Serving Config | Terminated int

definition main :: "(string \<rightharpoonup> string) \<Rightarrow> error option \<Rightarrow> process" where
  "main env listenError =
     (case listenError of
        None \<Rightarrow> Serving (config env)
      | Some err \<Rightarrow> Terminated 1)"

subsection \<open>Providers of the examples\<close>

text \<open>A listing that answers every page with the same repositories and page indicators.\<close>

definition answering :: "Repository list \<Rightarrow> int \<Rightarrow> int \<Rightarrow> ListAPI" where
  "answering repos prev next client options =
     Inr (repos, \<lparr>respPrevPage = prev, respNextPage = next\<rparr>)"

text \<open>
  A hosting provider whose state is the list of the repositories that exist: it refuses
  with status 403 to delete a repository of an owner in \<open>protected\<close>, answers 404 for one
  that does not exist, and deletes any other.
\<close>

definition hosting :: "string list \<Rightarrow> (string \<times> string) list DeleteAPI" where
  "hosting protected existing client owner repoName =
     (if owner \<in> set protected
      then (Some (ErrorResponse 403 ''403 Must have admin rights to Repository.''), existing)
      else if (owner, repoName) \<in> set existing
      then (None, removeAll (owner, repoName) existing)
      else (Some (ErrorResponse 404 ''404 Not Found''), existing))"

text \<open>A provider that answers every delete call with the 403 of an exhausted rate limit.\<close>

definition rateLimited :: "unit DeleteAPI" where
  "rateLimited p client owner repoName =
     (Some (RateLimitError 403 ''403 API rate limit exceeded''), p)"

definition granting :: "string \<Rightarrow> TokenEndpoint" where
  "granting token form = Replied [''access_token'' \<mapsto> JString token]"

text \<open>The endpoint's answer to a code it does not accept: a JSON object with no token.\<close>

definition refusing :: TokenEndpoint where
  "refusing form = Replied [''error'' \<mapsto> JString ''bad_verification_code'']"

definition unreachable :: TokenEndpoint where
  "unreachable form = Unreachable (PlainError ''connection refused'')"

section \<open>Properties\<close>

subsection \<open>Splitting\<close>

lemma Split_not_Nil: "Split s sep \<noteq> []"
  by (induction s) (auto split: list.splits)

lemma Split_without_sep: "sep \<notin> set s \<Longrightarrow> Split s sep = [s]"
  by (induction s) auto

lemma Split_with_sep:
  "sep \<in> set s \<Longrightarrow>
     Split s sep = takeWhile (\<lambda>c. c \<noteq> sep) s # Split (tl (dropWhile (\<lambda>c. c \<noteq> sep) s)) sep"
  by (induction s) (auto split: list.splits simp: Split_not_Nil)

lemma hd_Split: "hd (Split s sep) = takeWhile (\<lambda>c. c \<noteq> sep) s"
  by (induction s) (auto split: list.splits simp: Split_not_Nil)

lemma length_Split_less_2: "length (Split s sep) < 2 \<longleftrightarrow> sep \<notin> set s"
proof (cases "sep \<in> set s")
  case True
  then show ?thesis
    using Split_not_Nil [of "tl (dropWhile (\<lambda>c. c \<noteq> sep) s)" sep]
    by (cases "Split (tl (dropWhile (\<lambda>c. c \<noteq> sep) s)) sep") (simp_all add: Split_with_sep)
next
  case False
  then show ?thesis by (simp add: Split_without_sep)
qed

lemma Split_nth_0: "Split s sep ! 0 = takeWhile (\<lambda>c. c \<noteq> sep) s"
  using hd_Split [of s sep] Split_not_Nil [of s sep] by (simp add: hd_conv_nth)

lemma Split_nth_1:
  "sep \<in> set s \<Longrightarrow>
     Split s sep ! 1 = takeWhile (\<lambda>c. c \<noteq> sep) (tl (dropWhile (\<lambda>c. c \<noteq> sep) s))"
  by (simp add: Split_with_sep Split_nth_0)

text \<open>With one separator only, the second part is all that follows it.\<close>

lemma beforeSlash_afterSlash_single:
  "CHR ''/'' \<notin> set (afterSlash repo) \<Longrightarrow> beforeSlash (afterSlash repo) = afterSlash repo"
  by (auto simp: takeWhile_eq_all_conv)

subsection \<open>One turn of the delete loop\<close>

text \<open>An identifier with no \<open>/\<close> stops the loop: \<^verbatim>\<open>parts[1]\<close> is out of range.\<close>

lemma deleteLoop_malformed:
  "CHR ''/'' \<notin> set repo \<Longrightarrow>
     deleteLoop api githubClient (repo # repos) p w sent =
       (\<lparr>session = githubClient, response = Panicked IndexOutOfRange w, requests = sent\<rparr>, p)"
  by (simp add: Split_without_sep)

lemma deleteLoop_nil_client:
  "CHR ''/'' \<in> set repo \<Longrightarrow>
     deleteLoop api None (repo # repos) p w sent =
       (\<lparr>session = None, response = Panicked NilPointerDereference w, requests = sent\<rparr>, p)"
  using length_Split_less_2 [of repo "CHR ''/''"] by (simp add: Let_def)

lemma deleteLoop_step:
  "CHR ''/'' \<in> set repo \<Longrightarrow>
     deleteLoop api (Some client) (repo # repos) p w sent =
       (case api p client (beforeSlash repo) (beforeSlash (afterSlash repo)) of
          (err, p') \<Rightarrow>
            deleteLoop api (Some client) repos p' (w @ [outcome repo err])
              (sent @ [DeleteRepo (beforeSlash repo) (beforeSlash (afterSlash repo))]))"
  using length_Split_less_2 [of repo "CHR ''/''"]
  by (simp add: Let_def Split_nth_0 Split_nth_1 del: One_nat_def)

lemma subject_outcome: "subject (outcome repo err) = repo"
  by (cases err) (simp_all add: outcome_def)

subsection \<open>The whole loop\<close>

text \<open>
  In a session, the delete calls made are those for the identifiers before the first one
  with no \<open>/\<close>, in order, each with its first two parts.
\<close>

lemma deleteLoop_requests:
  "requests (fst (deleteLoop api (Some client) repos p w sent)) =
     sent @ map (\<lambda>repo. DeleteRepo (beforeSlash repo) (beforeSlash (afterSlash repo)))
              (takeWhile (\<lambda>repo. CHR ''/'' \<in> set repo) repos)"
proof (induction repos arbitrary: p w sent)
  case Nil
  then show ?case by simp
next
  case (Cons repo repos)
  show ?case
  proof (cases "CHR ''/'' \<in> set repo")
    case True
    then show ?thesis
      by (simp only: deleteLoop_step [OF True] Cons.IH split: prod.split) simp
  next
    case False
    then show ?thesis
      by (simp add: deleteLoop_malformed del: deleteLoop.simps)
  qed
qed

text \<open>
  Authenticated and with a separator in every identifier, the loop writes one line for
  each identifier, in the order of the input, whatever the provider answers.
\<close>

lemma deleteLoop_results:
  "\<forall>repo \<in> set repos. CHR ''/'' \<in> set repo \<Longrightarrow>
     \<exists>results. response (fst (deleteLoop api (Some client) repos p w sent)) = DeleteReport (w @ results)
       \<and> map subject results = repos"
proof (induction repos arbitrary: p w sent)
  case Nil
  then show ?case by simp
next
  case (Cons repo repos)
  then have slash: "CHR ''/'' \<in> set repo" and rest: "\<forall>r \<in> set repos. CHR ''/'' \<in> set r"
    by simp_all
  obtain err p' where reply:
    "api p client (beforeSlash repo) (beforeSlash (afterSlash repo)) = (err, p')"
    by (cases "api p client (beforeSlash repo) (beforeSlash (afterSlash repo))")
  from Cons.IH [OF rest, of p' "w @ [outcome repo err]"
      "sent @ [DeleteRepo (beforeSlash repo) (beforeSlash (afterSlash repo))]"]
  obtain results where
    "response (fst (deleteLoop api (Some client) repos p' (w @ [outcome repo err])
       (sent @ [DeleteRepo (beforeSlash repo) (beforeSlash (afterSlash repo))]))) =
       DeleteReport ((w @ [outcome repo err]) @ results)"
    and "map subject results = repos"
    by blast
  then have "response (fst (deleteLoop api (Some client) (repo # repos) p w sent)) =
       DeleteReport (w @ (outcome repo err # results))
     \<and> map subject (outcome repo err # results) = repo # repos"
    by (simp add: deleteLoop_step [OF slash] reply subject_outcome del: deleteLoop.simps)
  then show ?case by (rule exI [where x = "outcome repo err # results"])
qed

lemma deleteLoop_not_Exited:
  "response (fst (deleteLoop api githubClient repos p w sent)) \<noteq> Exited n"
  by (induction api githubClient repos p w sent rule: deleteLoop.induct)
    (auto simp: Let_def split: option.splits prod.splits)

lemma deleteHandler_not_Exited:
  "response (fst (deleteHandler api githubClient repos p)) \<noteq> Exited n"
  by (simp add: deleteHandler_def deleteLoop_not_Exited)

subsection \<open>Scanning the page number\<close>

lemma SkipSpace_subset: "SkipSpace s = Some t \<Longrightarrow> set t \<subseteq> set s"
  by (induction s) (auto split: if_splits)

lemma scanInt_Nil: "scanInt [] = None"
  by (simp add: scanInt_def)

text \<open>Nothing is scanned from input that holds no decimal digit.\<close>

lemma scanInt_no_digit:
  assumes "\<forall>r \<in> set p. \<not> isDigit r"
  shows "scanInt p = None"
proof (cases "SkipSpace p")
  case None
  then show ?thesis by (simp add: scanInt_def)
next
  case (Some s)
  then have "set s \<subseteq> set p" by (rule SkipSpace_subset)
  with assms have none: "\<forall>r \<in> set s. \<not> isDigit r" by blast
  show ?thesis
  proof (cases s)
    case Nil
    with Some show ?thesis by (simp add: scanInt_def)
  next
    case (Cons r rs)
    with none have "\<not> isDigit r" and "\<forall>d \<in> set rs. \<not> isDigit d" by simp_all
    with Some Cons show ?thesis
      by (cases rs) (simp_all add: scanInt_def Let_def)
  qed
qed

lemma scanInt_abc: "scanInt (runes ''abc'') = None"
  by (simp add: scanInt_def runes_def isDigit_def isSpace_def decimal_def)

lemma scanInt_0: "scanInt (runes ''0'') = Some 0"
  by (simp add: scanInt_def runes_def isDigit_def isSpace_def decimal_def)

lemma scanInt_1: "scanInt (runes ''1'') = Some 1"
  by (simp add: scanInt_def runes_def isDigit_def isSpace_def decimal_def)

lemma scanInt_3: "scanInt (runes ''3'') = Some 3"
  by (simp add: scanInt_def runes_def isDigit_def isSpace_def decimal_def)

lemma scanInt_minus_5: "scanInt (runes ''-5'') = Some (- 5)"
  by (simp add: scanInt_def runes_def isDigit_def isSpace_def decimal_def)

text \<open>A number followed by other text is scanned, and so is one after blanks and a sign.\<close>

lemma scanInt_3abc: "scanInt (runes ''3abc'') = Some 3"
  by (simp add: scanInt_def runes_def isDigit_def isSpace_def decimal_def)

lemma scanInt_blank_plus_7: "scanInt (runes '' +7'') = Some 7"
  by (simp add: scanInt_def runes_def isDigit_def isSpace_def decimal_def)

lemma pageNumber_default: "scanInt (Get pageParam) = None \<Longrightarrow> pageNumber pageParam = 1"
  by (simp add: pageNumber_def Sscanf_def Let_def)

lemma pageNumber_scanned: "scanInt (Get pageParam) = Some n \<Longrightarrow> pageNumber pageParam = n"
  by (cases "Get pageParam = []") (simp_all add: pageNumber_def Sscanf_def scanInt_Nil Let_def)

lemma pageNumber_1: "pageNumber (Some (runes ''1'')) = 1"
  by (rule pageNumber_scanned) (simp add: Get_def scanInt_1)

subsection \<open>The lister\<close>

lemma homeHandler_page:
  "pageNumber a = pageNumber b \<Longrightarrow> homeHandler api githubClient a = homeHandler api githubClient b"
  by (cases githubClient) (simp_all add: homeHandler_def)

lemma homeHandler_requests:
  "requests (homeHandler api (Some client) pageParam) =
     [ListRepos \<lparr>PerPage = 10, Page = pageNumber pageParam\<rparr>]"
  by (simp add: homeHandler_def Let_def split: sum.splits prod.splits option.splits)

lemma homeHandler_not_Exited: "response (homeHandler api githubClient pageParam) \<noteq> Exited n"
  by (simp add: homeHandler_def Let_def split: option.splits sum.splits prod.splits)

subsection \<open>Scenarios\<close>

text \<open>
  Authenticated and with a separator in every identifier, a delete request is answered
  with one line for each identifier, in the order of the input.
\<close>

lemma deleteHandler_results:
  assumes "\<forall>repo \<in> set repos. CHR ''/'' \<in> set repo"
  shows "\<exists>results. response (fst (deleteHandler api (Some client) repos p)) = DeleteReport results
    \<and> map subject results = repos"
  using deleteLoop_results [OF assms, of api client p "[]" "[]"] by (simp add: deleteHandler_def)

text \<open>A callback with the code \<open>abc123\<close>, answered with the token \<open>tok_1\<close>.\<close>

lemma callback_scenario:
  "callbackHandler cfg (granting ''tok_1'') githubClient (Some ''abc123'') =
     \<lparr>session = Some (Client ''tok_1''), response = Redirect ''/'' 302,
       requests = [TokenPost (''client_id='' @ clientID cfg @ ''&client_secret=''
         @ clientSecret cfg @ ''&code=abc123'')]\<rparr>"
  by (simp add: callbackHandler_def exchangeCodeForToken_def Get_def granting_def)

section \<open>The claims\<close>

subsection \<open>C1: how an identifier is split\<close>

text \<open>
  C1, amended. For every identifier that the loop processes and that contains a \<open>/\<close>, the
  delete call names as owner what lies before the first \<open>/\<close>, and as repository what lies
  between the first \<open>/\<close> and the next one: all that follows the first \<open>/\<close> only when
  there is no second (\<open>beforeSlash_afterSlash_single\<close>). The identifiers processed are
  those before the first one with no \<open>/\<close>, whatever comes after them in the request.
\<close>

theorem deleteAll_owner_and_name:
  "requests (fst (deleteHandler api (Some client) repos p)) =
     map (\<lambda>repo. DeleteRepo (beforeSlash repo) (beforeSlash (afterSlash repo)))
       (takeWhile (\<lambda>repo. CHR ''/'' \<in> set repo) repos)"
  using deleteLoop_requests [of api client repos p "[]" "[]"] by (simp add: deleteHandler_def)

theorem deleteAll_owner_and_name_witness:
  "requests (fst (deleteHandler (hosting []) (Some (Client ''tok_1''))
      [''alice/repoA'', ''bob/repoB/extra'', ''nosep'', ''carol/repoC''] [(''alice'', ''repoA'')])) =
     [DeleteRepo ''alice'' ''repoA'', DeleteRepo ''bob'' ''repoB'']"
  using deleteAll_owner_and_name [of "hosting []" "Client ''tok_1''"
      "[''alice/repoA'', ''bob/repoB/extra'', ''nosep'', ''carol/repoC'']" "[(''alice'', ''repoA'')]"]
  by simp

text \<open>
  C1 as the specification states it fails twice. For \<^verbatim>\<open>bob/repoB/extra\<close> the name sent is
  \<^verbatim>\<open>repoB\<close>, not \<^verbatim>\<open>repoB/extra\<close>, which is what follows the first \<open>/\<close>. For \<^verbatim>\<open>nosep\<close>
  the handler panics; no line reports the identifier.
\<close>

theorem deleteAll_name_counterexample:
  "requests (fst (deleteHandler (hosting []) (Some (Client ''tok_1'')) [''bob/repoB/extra'']
      [(''bob'', ''repoB'')])) = [DeleteRepo ''bob'' ''repoB'']
   \<and> afterSlash ''bob/repoB/extra'' = ''repoB/extra''
   \<and> response (fst (deleteHandler (hosting []) (Some (Client ''tok_1'')) [''nosep'']
      [(''bob'', ''repoB'')])) = Panicked IndexOutOfRange []"
  by (simp add: deleteHandler_def hosting_def Let_def)

subsection \<open>C2: a failed token exchange\<close>

text \<open>
  C2, amended. When the callback has a code and the token endpoint is unreachable, or
  answers with a payload that has no string under \<^verbatim>\<open>access_token\<close>, no error is returned
  to the caller: \<^verbatim>\<open>log.Fatalf\<close> ends the process with status 1, after the one request to
  the endpoint, with the session as it was. No other handler ends the process.
\<close>

theorem token_exchange_failure_exits:
  "(Get codeParam \<noteq> [] \<and>
      ((\<exists>err. post (''client_id='' @ clientID cfg @ ''&client_secret='' @ clientSecret cfg
                       @ ''&code='' @ Get codeParam) = Unreachable err)
       \<or> (\<exists>result. post (''client_id='' @ clientID cfg @ ''&client_secret='' @ clientSecret cfg
                       @ ''&code='' @ Get codeParam) = Replied result
             \<and> (\<forall>token. result ''access_token'' \<noteq> Some (JString token))))
    \<longrightarrow> callbackHandler cfg post githubClient codeParam =
          \<lparr>session = githubClient, response = Exited 1,
            requests = [TokenPost (''client_id='' @ clientID cfg @ ''&client_secret=''
              @ clientSecret cfg @ ''&code='' @ Get codeParam)]\<rparr>)
   \<and> response (homeHandler api githubClient pageParam) \<noteq> Exited n
   \<and> response (loginHandler cfg githubClient) \<noteq> Exited n
   \<and> response (logoutHandler githubClient) \<noteq> Exited n
   \<and> response (fst (deleteHandler deleteApi githubClient repos p)) \<noteq> Exited n"
proof (intro conjI impI)
  assume failure: "Get codeParam \<noteq> [] \<and>
      ((\<exists>err. post (''client_id='' @ clientID cfg @ ''&client_secret='' @ clientSecret cfg
                       @ ''&code='' @ Get codeParam) = Unreachable err)
       \<or> (\<exists>result. post (''client_id='' @ clientID cfg @ ''&client_secret='' @ clientSecret cfg
                       @ ''&code='' @ Get codeParam) = Replied result
             \<and> (\<forall>token. result ''access_token'' \<noteq> Some (JString token))))"
  then have code: "Get codeParam \<noteq> []" by simp
  from failure have "exchangeCodeForToken cfg post (Get codeParam) =
      (Inl 1, [TokenPost (''client_id='' @ clientID cfg @ ''&client_secret=''
              @ clientSecret cfg @ ''&code='' @ Get codeParam)])"
    by (auto simp: exchangeCodeForToken_def Let_def split: option.splits any.splits)
  with code show "callbackHandler cfg post githubClient codeParam =
          \<lparr>session = githubClient, response = Exited 1,
            requests = [TokenPost (''client_id='' @ clientID cfg @ ''&client_secret=''
              @ clientSecret cfg @ ''&code='' @ Get codeParam)]\<rparr>"
    by (simp add: callbackHandler_def)
qed (simp_all add: homeHandler_not_Exited loginHandler_def logoutHandler_def
    deleteHandler_not_Exited)

theorem token_exchange_failure_exits_witness:
  "callbackHandler (config Map.empty) unreachable None (Some ''abc123'') =
     \<lparr>session = None, response = Exited 1,
       requests = [TokenPost ''client_id=&client_secret=&code=abc123'']\<rparr>
   \<and> callbackHandler (config Map.empty) refusing None (Some ''abc123'') =
     \<lparr>session = None, response = Exited 1,
       requests = [TokenPost ''client_id=&client_secret=&code=abc123'']\<rparr>"
  using
    token_exchange_failure_exits [of "Some ''abc123''" unreachable "config Map.empty" None
      "answering [] 0 0" None 1 "hosting []" "[]" "[]"]
    token_exchange_failure_exits [of "Some ''abc123''" refusing "config Map.empty" None
      "answering [] 0 0" None 1 "hosting []" "[]" "[]"]
  by (simp add: Get_def unreachable_def refusing_def config_def Getenv_def)

text \<open>
  C2 as the specification states it fails: with the endpoint unreachable, and with a payload
  that holds no token, the callback ends the process instead of returning an error.
\<close>

theorem token_exchange_counterexample:
  "response (callbackHandler (config Map.empty) unreachable None (Some ''abc123'')) = Exited 1
   \<and> response (callbackHandler (config Map.empty) refusing None (Some ''abc123'')) = Exited 1"
  by (simp add: callbackHandler_def exchangeCodeForToken_def Get_def unreachable_def refusing_def
      config_def Getenv_def)

subsection \<open>C3: the page number\<close>

text \<open>
  C3, amended. When the \<^verbatim>\<open>page\<close> parameter is absent or empty, or no integer is scanned
  from it (as from any text without a decimal digit), the lister behaves as it does for
  page 1. A number that is scanned is given to the list call of the client library as it
  is, so a negative number is not normalised. For zero, the page listed is the one listed
  for page 1 whenever the library and the provider answer page 0 as they answer page 1
  (the library leaves a zero page out of the request it sends).
\<close>

theorem listPage_default_page:
  "((\<forall>r \<in> set (Get pageParam). \<not> isDigit r) \<longrightarrow>
      homeHandler api githubClient pageParam = homeHandler api githubClient (Some (runes ''1'')))
   \<and> (scanInt (Get pageParam) = None \<longrightarrow>
      homeHandler api githubClient pageParam = homeHandler api githubClient (Some (runes ''1'')))
   \<and> (scanInt (Get pageParam) = Some 0
        \<and> (\<forall>client. api client \<lparr>PerPage = 10, Page = 0\<rparr> = api client \<lparr>PerPage = 10, Page = 1\<rparr>) \<longrightarrow>
      response (homeHandler api githubClient pageParam) =
        response (homeHandler api githubClient (Some (runes ''1'')))
      \<and> session (homeHandler api githubClient pageParam) =
        session (homeHandler api githubClient (Some (runes ''1''))))
   \<and> (scanInt (Get pageParam) = Some n \<longrightarrow>
      requests (homeHandler api (Some client) pageParam) = [ListRepos \<lparr>PerPage = 10, Page = n\<rparr>])"
proof (intro conjI impI)
  assume "\<forall>r \<in> set (Get pageParam). \<not> isDigit r"
  then have "scanInt (Get pageParam) = None" by (rule scanInt_no_digit)
  then show "homeHandler api githubClient pageParam = homeHandler api githubClient (Some (runes ''1''))"
    by (intro homeHandler_page) (simp add: pageNumber_default pageNumber_1)
next
  assume "scanInt (Get pageParam) = None"
  then show "homeHandler api githubClient pageParam = homeHandler api githubClient (Some (runes ''1''))"
    by (intro homeHandler_page) (simp add: pageNumber_default pageNumber_1)
next
  assume zero: "scanInt (Get pageParam) = Some 0
    \<and> (\<forall>client. api client \<lparr>PerPage = 10, Page = 0\<rparr> = api client \<lparr>PerPage = 10, Page = 1\<rparr>)"
  then have page: "pageNumber pageParam = 0" by (simp add: pageNumber_scanned)
  show "response (homeHandler api githubClient pageParam) =
      response (homeHandler api githubClient (Some (runes ''1'')))"
  proof (cases githubClient)
    case None
    then show ?thesis by (simp add: homeHandler_def)
  next
    case (Some c)
    from zero have "api c \<lparr>PerPage = 10, Page = 0\<rparr> = api c \<lparr>PerPage = 10, Page = 1\<rparr>" by simp
    with Some page show ?thesis
      by (simp add: homeHandler_def pageNumber_1 Let_def
          split: sum.splits prod.splits option.splits)
  qed
next
  show "session (homeHandler api githubClient pageParam) =
      session (homeHandler api githubClient (Some (runes ''1'')))"
    by (simp add: homeHandler_def Let_def split: sum.splits prod.splits option.splits)
next
  assume "scanInt (Get pageParam) = Some n"
  then show "requests (homeHandler api (Some client) pageParam) = [ListRepos \<lparr>PerPage = 10, Page = n\<rparr>]"
    by (simp add: homeHandler_requests pageNumber_scanned)
qed

theorem listPage_default_page_witness:
  "homeHandler (answering [] 0 2) (Some (Client ''tok_1'')) (Some (runes ''abc'')) =
     homeHandler (answering [] 0 2) (Some (Client ''tok_1'')) (Some (runes ''1''))
   \<and> homeHandler (answering [] 0 2) (Some (Client ''tok_1'')) None =
     homeHandler (answering [] 0 2) (Some (Client ''tok_1'')) (Some (runes ''1''))
   \<and> response (homeHandler (answering [] 0 2) (Some (Client ''tok_1'')) (Some (runes ''0''))) =
     response (homeHandler (answering [] 0 2) (Some (Client ''tok_1'')) (Some (runes ''1'')))
   \<and> requests (homeHandler (answering [] 0 2) (Some (Client ''tok_1'')) (Some (runes ''-5''))) =
     [ListRepos \<lparr>PerPage = 10, Page = - 5\<rparr>]"
  using
    listPage_default_page [of "Some (runes ''abc'')" "answering [] 0 2" "Some (Client ''tok_1'')" 0
      "Client ''tok_1''"]
    listPage_default_page [of None "answering [] 0 2" "Some (Client ''tok_1'')" 0 "Client ''tok_1''"]
    listPage_default_page [of "Some (runes ''0'')" "answering [] 0 2" "Some (Client ''tok_1'')" 0
      "Client ''tok_1''"]
    listPage_default_page [of "Some (runes ''-5'')" "answering [] 0 2" "Some (Client ''tok_1'')" "- 5"
      "Client ''tok_1''"]
  by (simp add: Get_def scanInt_abc scanInt_0 scanInt_minus_5 scanInt_Nil answering_def)

text \<open>
  C3 as the specification states it fails: for the input \<^verbatim>\<open>-5\<close> the list call is made
  for page \<open>-5\<close>, not for page 1, so the handler does not do what it does for page 1.
\<close>

theorem listPage_nonpositive_counterexample:
  "requests (homeHandler (answering [] 0 2) (Some (Client ''tok_1'')) (Some (runes ''-5''))) =
     [ListRepos \<lparr>PerPage = 10, Page = - 5\<rparr>]
   \<and> requests (homeHandler (answering [] 0 2) (Some (Client ''tok_1'')) (Some (runes ''1''))) =
     [ListRepos \<lparr>PerPage = 10, Page = 1\<rparr>]
   \<and> homeHandler (answering [] 0 2) (Some (Client ''tok_1'')) (Some (runes ''-5'')) \<noteq>
     homeHandler (answering [] 0 2) (Some (Client ''tok_1'')) (Some (runes ''1''))"
proof -
  have asked: "pageNumber (Some (runes ''-5'')) = - 5"
    by (rule pageNumber_scanned) (simp add: Get_def scanInt_minus_5)
  have sent:
    "requests (homeHandler (answering [] 0 2) (Some (Client ''tok_1'')) (Some (runes ''-5''))) =
       [ListRepos \<lparr>PerPage = 10, Page = - 5\<rparr>]"
    and default:
    "requests (homeHandler (answering [] 0 2) (Some (Client ''tok_1'')) (Some (runes ''1''))) =
       [ListRepos \<lparr>PerPage = 10, Page = 1\<rparr>]"
    by (simp_all add: homeHandler_requests asked pageNumber_1)
  have "homeHandler (answering [] 0 2) (Some (Client ''tok_1'')) (Some (runes ''-5'')) \<noteq>
      homeHandler (answering [] 0 2) (Some (Client ''tok_1'')) (Some (runes ''1''))"
  proof
    assume "homeHandler (answering [] 0 2) (Some (Client ''tok_1'')) (Some (runes ''-5'')) =
      homeHandler (answering [] 0 2) (Some (Client ''tok_1'')) (Some (runes ''1''))"
    then have
      "requests (homeHandler (answering [] 0 2) (Some (Client ''tok_1'')) (Some (runes ''-5''))) =
       requests (homeHandler (answering [] 0 2) (Some (Client ''tok_1'')) (Some (runes ''1'')))"
      by simp
    with sent default show False by simp
  qed
  with sent default show ?thesis by simp
qed

subsection \<open>C4: one result for each identifier\<close>

text \<open>
  C4 at an input where the loop does not do what the claim says. The session is
  authenticated and the second of three identifiers has no \<open>/\<close>: the first repository is
  deleted and reported, then \<^verbatim>\<open>parts[1]\<close> panics. No line is written for the second and the
  third identifier, and the third is not attempted, although it exists and could be
  deleted. (When every identifier has a \<open>/\<close> the loop does write one line for each, in
  order: \<open>deleteHandler_results\<close>.)
\<close>

theorem deleteAll_stops_at_malformed:
  "deleteHandler (hosting []) (Some (Client ''tok_1'')) [''alice/repoA'', ''nosep'', ''bob/repoB'']
      [(''alice'', ''repoA''), (''bob'', ''repoB'')] =
     (\<lparr>session = Some (Client ''tok_1''),
       response = Panicked IndexOutOfRange [Deleted ''alice/repoA''],
       requests = [DeleteRepo ''alice'' ''repoA'']\<rparr>,
      [(''bob'', ''repoB'')])"
  by (simp add: deleteHandler_def hosting_def outcome_def Let_def)

subsection \<open>C5: the line written for a delete call\<close>

text \<open>
  C5, amended. In every turn of the loop that reaches the delete call, the line written is
  decided by the error the call returns: an \<^verbatim>\<open>ErrorResponse\<close> with status 403 gives
  \<open>Forbidden\<close>, the line about admin rights, and never \<open>OtherError\<close>; any other error gives
  \<open>OtherError\<close> with the text of the error, also a rate-limit error, whose response has
  status 403 as well; no error gives \<open>Deleted\<close>. The three lines are the texts of lines
  163, 166 and 169, and the loop goes on with the remaining identifiers.
\<close>

theorem delete_outcome_classified:
  assumes "CHR ''/'' \<in> set repo"
    and "api p client (beforeSlash repo) (beforeSlash (afterSlash repo)) = (err, p')"
  shows "deleteLoop api (Some client) (repo # repos) p w sent =
      deleteLoop api (Some client) repos p'
        (w @ [case err of
                None \<Rightarrow> Deleted repo
              | Some (ErrorResponse status text) \<Rightarrow>
                  if status = 403 then Forbidden repo else OtherError repo text
              | Some (RateLimitError status text) \<Rightarrow> OtherError repo text
              | Some (AbuseRateLimitError status text) \<Rightarrow> OtherError repo text
              | Some (PlainError text) \<Rightarrow> OtherError repo text])
        (sent @ [DeleteRepo (beforeSlash repo) (beforeSlash (afterSlash repo))])
    \<and> render (Forbidden repo) =
      ''Failed to delete '' @ repo @ '': You must have admin rights to delete this repository.<br>''
    \<and> render (OtherError repo text) = ''Failed to delete '' @ repo @ '': '' @ text @ ''<br>''
    \<and> render (Deleted repo) = ''Deleted: '' @ repo @ ''<br>''"
proof -
  have "outcome repo err =
      (case err of
         None \<Rightarrow> Deleted repo
       | Some (ErrorResponse status text) \<Rightarrow>
           if status = 403 then Forbidden repo else OtherError repo text
       | Some (RateLimitError status text) \<Rightarrow> OtherError repo text
       | Some (AbuseRateLimitError status text) \<Rightarrow> OtherError repo text
       | Some (PlainError text) \<Rightarrow> OtherError repo text)"
    by (simp add: outcome_def split: option.split error.split)
  with assms show ?thesis
    by (simp add: deleteLoop_step del: deleteLoop.simps)
qed

text \<open>
  The scenario of the specification: the provider refuses the first repository with 403
  and deletes the second.
\<close>

theorem delete_outcome_classified_witness:
  "deleteHandler (hosting [''alice'']) (Some (Client ''tok_1'')) [''alice/repoA'', ''bob/repoB'']
      [(''alice'', ''repoA''), (''bob'', ''repoB'')] =
     (\<lparr>session = Some (Client ''tok_1''),
       response = DeleteReport [Forbidden ''alice/repoA'', Deleted ''bob/repoB''],
       requests = [DeleteRepo ''alice'' ''repoA'', DeleteRepo ''bob'' ''repoB'']\<rparr>,
      [(''alice'', ''repoA'')])"
  using delete_outcome_classified [of "''alice/repoA''" "hosting [''alice'']"
      "[(''alice'', ''repoA''), (''bob'', ''repoB'')]" "Client ''tok_1''"
      "Some (ErrorResponse 403 ''403 Must have admin rights to Repository.'')"
      "[(''alice'', ''repoA''), (''bob'', ''repoB'')]" "[''bob/repoB'']" "[]" "[]" "[]"]
  by (simp add: deleteHandler_def hosting_def outcome_def Let_def)

text \<open>
  C5 as the specification states it fails: the delete call is answered with status 403
  because the rate limit is used up, the error is a \<^verbatim>\<open>*github.RateLimitError\<close>, and the
  line written is the one for other errors, not the one about admin rights.
\<close>

theorem delete_rate_limit_counterexample:
  "rateLimited () (Client ''tok_1'') ''alice'' ''repoA'' =
     (Some (RateLimitError 403 ''403 API rate limit exceeded''), ())
   \<and> StatusCode (RateLimitError 403 ''403 API rate limit exceeded'') = Some 403
   \<and> response (fst (deleteHandler rateLimited (Some (Client ''tok_1'')) [''alice/repoA''] ())) =
       DeleteReport [OtherError ''alice/repoA'' ''403 API rate limit exceeded'']"
  by (simp add: deleteHandler_def rateLimited_def outcome_def Let_def)

subsection \<open>C6: start-up with missing credentials\<close>

text \<open>
  C6, amended. Start-up does not look at the credentials: whatever the environment holds,
  the service starts serving once it can listen, and it stops at start-up only when
  listening fails. A client ID that is not set is the empty string, which the login
  redirect then carries; a secret that is not set is the empty string as well.
\<close>

theorem startup_without_credentials:
  "main env None = Serving (config env)
   \<and> (env ''OAUTH_CLIENT_ID'' = None \<longrightarrow>
        clientID (config env) = []
        \<and> response (loginHandler (config env) githubClient) =
            Redirect ''https://github.com/login/oauth/authorize?client_id=&scope=repo,delete_repo&redirect_uri=http://localhost:8989/callback'' 302)
   \<and> (env ''OAUTH_CLIENT_SECRET'' = None \<longrightarrow> clientSecret (config env) = [])
   \<and> main env (Some err) = Terminated 1"
  by (simp add: main_def config_def Getenv_def loginHandler_def)

theorem startup_without_credentials_witness:
  "main Map.empty None =
     Serving \<lparr>clientID = [], clientSecret = [], redirectURI = ''http://localhost:8989/callback''\<rparr>
   \<and> response (loginHandler (config Map.empty) None) =
       Redirect ''https://github.com/login/oauth/authorize?client_id=&scope=repo,delete_repo&redirect_uri=http://localhost:8989/callback'' 302"
  using startup_without_credentials [of Map.empty None "PlainError []"]
  by (simp add: config_def Getenv_def)

text \<open>
  C6 as the specification states it fails: with neither variable set, the service serves.
\<close>

theorem startup_counterexample:
  "main Map.empty None =
     Serving \<lparr>clientID = [], clientSecret = [], redirectURI = ''http://localhost:8989/callback''\<rparr>"
  by (simp add: main_def config_def Getenv_def)

subsection \<open>C7: the page flags\<close>

text \<open>
  C7, amended. For every page that is listed, \<^verbatim>\<open>HasPrev\<close> is false if and only if the
  provider's previous-page indicator is not positive (zero, or a negative number), and
  \<^verbatim>\<open>HasNext\<close> is false if and only if the next-page indicator is not positive; the page
  numbers shown are the provider's indicators.
\<close>

theorem listed_page_flags:
  assumes "response (homeHandler api githubClient pageParam) = Index data"
  shows "\<exists>client repos resp.
      githubClient = Some client
      \<and> api client \<lparr>PerPage = 10, Page = pageNumber pageParam\<rparr> = Inr (repos, resp)
      \<and> (\<not> HasPrev data \<longleftrightarrow> respPrevPage resp \<le> 0)
      \<and> (\<not> HasNext data \<longleftrightarrow> respNextPage resp \<le> 0)
      \<and> PrevPage data = respPrevPage resp
      \<and> NextPage data = respNextPage resp"
  using assms
  by (auto simp: homeHandler_def Let_def split: option.splits sum.splits prod.splits)

text \<open>The scenario of the specification: page 3, with the indicators 2 and 0.\<close>

theorem listed_page_flags_witness:
  "response (homeHandler (answering [] 2 0) (Some (Client ''tok_1'')) (Some (runes ''3''))) =
     Index \<lparr>Repos = [], HasPrev = True, HasNext = False, PrevPage = 2, NextPage = 0,
       IsLoggedIn = True\<rparr>
   \<and> requests (homeHandler (answering [] 2 0) (Some (Client ''tok_1'')) (Some (runes ''3''))) =
     [ListRepos \<lparr>PerPage = 10, Page = 3\<rparr>]"
proof -
  have page: "pageNumber (Some (runes ''3'')) = 3"
    by (rule pageNumber_scanned) (simp add: Get_def scanInt_3)
  have listed:
    "response (homeHandler (answering [] 2 0) (Some (Client ''tok_1'')) (Some (runes ''3''))) =
       Index \<lparr>Repos = [], HasPrev = True, HasNext = False, PrevPage = 2, NextPage = 0,
         IsLoggedIn = True\<rparr>"
    by (simp add: homeHandler_def answering_def isAuthenticated_def)
  from listed_page_flags [OF listed] page show ?thesis
    by (simp add: listed homeHandler_requests)
qed

text \<open>
  C7 as the specification states it fails for an indicator below zero: with the
  previous-page indicator \<open>-1\<close>, \<^verbatim>\<open>HasPrev\<close> is false although the indicator is not 0.
\<close>

theorem listed_page_flags_counterexample:
  "response (homeHandler (answering [] (- 1) 0) (Some (Client ''tok_1'')) None) =
     Index \<lparr>Repos = [], HasPrev = False, HasNext = False, PrevPage = - 1, NextPage = 0,
       IsLoggedIn = True\<rparr>"
  by (simp add: homeHandler_def answering_def isAuthenticated_def)

subsection \<open>C8: a callback without a code\<close>

text \<open>
  C8. A callback whose query has no \<^verbatim>\<open>code\<close> parameter, or an empty one, is answered with
  status 400 and the text "Code not found"; the session is what it was, and no request
  goes to the token endpoint.
\<close>

theorem callback_without_code:
  "callbackHandler cfg post githubClient None =
     \<lparr>session = githubClient, response = HttpError ''Code not found'' 400, requests = []\<rparr>
   \<and> callbackHandler cfg post githubClient (Some []) =
     \<lparr>session = githubClient, response = HttpError ''Code not found'' 400, requests = []\<rparr>"
  by (simp add: callbackHandler_def Get_def)

subsection \<open>C9: logout\<close>

text \<open>
  C9. After logout the session is not authenticated, whatever it was before; logout of an
  unauthenticated session leaves it so and answers with the same redirect, not an error;
  and a second logout gives what the first gave.
\<close>

theorem logout_clears_session:
  "\<not> isAuthenticated (session (logoutHandler githubClient))
   \<and> logoutHandler None = \<lparr>session = None, response = Redirect ''/'' 302, requests = []\<rparr>
   \<and> logoutHandler (session (logoutHandler githubClient)) = logoutHandler githubClient
   \<and> response (logoutHandler githubClient) = Redirect ''/'' 302"
  by (simp add: logoutHandler_def isAuthenticated_def)

subsection \<open>C10: a delete request without a session\<close>

text \<open>
  C10, amended. The delete handler does not check the session. With the session cleared
  and at least one identifier selected, it panics at the first identifier: on the \<^verbatim>\<open>nil\<close>
  client handle when that identifier has a \<open>/\<close>, and before that, at \<^verbatim>\<open>parts[1]\<close>, when it
  has none. Nothing is written, no delete request is issued, and no error is reported to
  the caller.
\<close>

theorem delete_unauthenticated_panics:
  assumes "repos \<noteq> []"
  shows "deleteHandler api None repos p =
    (\<lparr>session = None,
      response = Panicked (if CHR ''/'' \<in> set (hd repos) then NilPointerDereference
                           else IndexOutOfRange) [],
      requests = []\<rparr>, p)"
proof (cases repos)
  case Nil
  with assms show ?thesis by simp
next
  case (Cons repo rest)
  then show ?thesis
    by (cases "CHR ''/'' \<in> set repo")
      (simp_all add: deleteHandler_def deleteLoop_nil_client deleteLoop_malformed
         del: deleteLoop.simps)
qed

theorem delete_unauthenticated_panics_witness:
  "deleteHandler (hosting []) None [''alice/repoA'', ''bob/repoB''] [(''alice'', ''repoA'')] =
     (\<lparr>session = None, response = Panicked NilPointerDereference [], requests = []\<rparr>,
      [(''alice'', ''repoA'')])"
  using delete_unauthenticated_panics [of "[''alice/repoA'', ''bob/repoB'']" "hosting []"
      "[(''alice'', ''repoA'')]"]
  by simp

text \<open>
  C10 as stated fails for a first identifier with no \<open>/\<close>: the panic is the index out of
  range of line 156, which comes before the client handle is used at line 159.
\<close>

theorem delete_unauthenticated_counterexample:
  "response (fst (deleteHandler (hosting []) None [''nosep''] [(''alice'', ''repoA'')])) =
     Panicked IndexOutOfRange []"
  by (simp add: deleteHandler_def)

end
